theory Spec2Isabelle
  imports Main
begin

section \<open>The config extractor of nuxt-queue: \<^verbatim>\<open>src/runtime/python/get_config.py\<close>\<close>

text \<open>
  The script loads one worker module from a file path, reads its \<^verbatim>\<open>config\<close>
  attribute, deletes a \<^verbatim>\<open>middleware\<close> key from it when it is a dict, and writes
  \<^verbatim>\<open>json.dumps(config) + "\n"\<close> to a descriptor of the parent process.

  Python strings are modelled as \<^typ>\<open>string\<close>, one \<^typ>\<open>char\<close> per code point, so
  the model covers the code points below 256. Python integers are \<^typ>\<open>int\<close>.
\<close>

subsection \<open>Python values\<close>

text \<open>
  A float is not a number, an infinity (\<open>FInf True\<close> is the negative one), or finite.
  A finite float is given by its shortest decimal form, the one \<^verbatim>\<open>repr\<close> prints:
  \<open>FFin neg d e\<close> is \<open>d * 10 ^ e\<close>, negated when \<open>neg\<close> holds.
\<close>

datatype pyfloat = FNan | FInf bool | FFin bool nat int

text \<open>
  The keys a dict can hold: the five kinds that \<^verbatim>\<open>json.dumps\<close> accepts, and
  \<open>KOther t\<close> for a hashable key of any other type \<open>t\<close> (a tuple, say), which
  \<^verbatim>\<open>json.dumps\<close> rejects.
\<close>

datatype pykey = KStr string | KInt int | KFloat pyfloat | KBool bool | KNone | KOther string

text \<open>
  The values a module can bind to \<^verbatim>\<open>config\<close>. A dict is an association list in
  insertion order. \<open>PObj t\<close> is an object of a type \<open>t\<close> that \<^verbatim>\<open>json.dumps\<close>
  cannot serialise (a function, a set, a class instance).
\<close>

datatype pyval =
    PNone
  | PBool bool
  | PInt int
  | PFloat pyfloat
  | PStr string
  | PList "pyval list"
  | PTuple "pyval list"
  | PDict "(pykey \<times> pyval) list"
  | PObj string

subsection \<open>Exceptions\<close>

text \<open>
  The argument of \<^verbatim>\<open>SystemExit\<close>: none, an integer, or another object, given by its
  \<^verbatim>\<open>str()\<close>.
\<close>

datatype exit_arg = ExitNone | ExitInt int | ExitObj string

text \<open>
  The exceptions that can arise while the script runs. The first eight classes derive
  from \<^verbatim>\<open>Exception\<close>; \<open>RaisedException m\<close> is any other such exception raised by
  the worker module's body, with \<open>m\<close> its \<^verbatim>\<open>str()\<close>. \<open>SystemExit a\<close> and
  \<open>RaisedBase m\<close> (\<^verbatim>\<open>KeyboardInterrupt\<close>, \<^verbatim>\<open>GeneratorExit\<close>, ...) derive from
  \<^verbatim>\<open>BaseException\<close> only. \<open>KeyError k\<close> carries the missing key.
\<close>

datatype pyexc =
    ImportError string
  | AttributeError string
  | KeyError string
  | ValueError string
  | TypeError string
  | OSError string
  | OverflowError string
  | RaisedException string
  | SystemExit exit_arg
  | RaisedBase string

text \<open>What \<^verbatim>\<open>except Exception\<close> catches.\<close>

fun is_Exception :: "pyexc \<Rightarrow> bool" where
  "is_Exception (SystemExit a) = False"
| "is_Exception (RaisedBase m) = False"
| "is_Exception e = True"

subsection \<open>Digits\<close>

definition digit_chars :: string where
  "digit_chars = ''0123456789abcdef''"

definition digit_of :: "nat \<Rightarrow> char" where
  "digit_of n = digit_chars ! (n mod 16)"

fun str_nat :: "nat \<Rightarrow> string" where
  "str_nat n = (if n < 10 then [digit_of n] else str_nat (n div 10) @ [digit_of (n mod 10)])"

declare str_nat.simps [simp del]

text \<open>\<^verbatim>\<open>str(i)\<close> for an integer.\<close>

definition str_int :: "int \<Rightarrow> string" where
  "str_int i = (if i < 0 then CHR ''-'' # str_nat (nat (- i)) else str_nat (nat i))"

text \<open>Two lower-case hexadecimal digits, as \<^verbatim>\<open>'{0:02x}'.format(n)\<close> for \<open>n < 256\<close>.\<close>

definition hex2 :: "nat \<Rightarrow> string" where
  "hex2 n = [digit_of (n div 16), digit_of (n mod 16)]"

subsection \<open>\<^verbatim>\<open>repr\<close> of a string\<close>

text \<open>
  \<^verbatim>\<open>repr(s)\<close>: single quotes unless the string holds a single quote and no double
  quote; the quote and the backslash are escaped, tab, newline and carriage return are
  written \<^verbatim>\<open>\t \n \r\<close>, and a code point that is not printable is written
  \<^verbatim>\<open>\xNN\<close>. Below 256 the non-printable code points are those below 32, 127 to 160,
  and 173.
\<close>

definition repr_char :: "char \<Rightarrow> char \<Rightarrow> string" where
  "repr_char q c =
     (let n = (of_char c :: nat) in
      if c = q \<or> c = CHR 0x5C then [CHR 0x5C, c]
      else if c = CHR 0x09 then [CHR 0x5C, CHR ''t'']
      else if c = CHR 0x0A then [CHR 0x5C, CHR ''n'']
      else if c = CHR 0x0D then [CHR 0x5C, CHR ''r'']
      else if n < 32 \<or> (127 \<le> n \<and> n \<le> 160) \<or> n = 173 then [CHR 0x5C, CHR ''x''] @ hex2 n
      else [c])"

definition py_repr :: "string \<Rightarrow> string" where
  "py_repr s =
     (let q = (if CHR 0x27 \<in> set s \<and> CHR 0x22 \<notin> set s then CHR 0x22 else CHR 0x27)
      in [q] @ concat (map (repr_char q) s) @ [q])"

text \<open>\<^verbatim>\<open>str(error)\<close>: the message, and for a \<^verbatim>\<open>KeyError\<close> the repr of the key.\<close>

fun str_exit_arg :: "exit_arg \<Rightarrow> string" where
  "str_exit_arg ExitNone = []"
| "str_exit_arg (ExitInt n) = str_int n"
| "str_exit_arg (ExitObj s) = s"

fun str_exc :: "pyexc \<Rightarrow> string" where
  "str_exc (ImportError m) = m"
| "str_exc (AttributeError m) = m"
| "str_exc (KeyError k) = py_repr k"
| "str_exc (ValueError m) = m"
| "str_exc (TypeError m) = m"
| "str_exc (OSError m) = m"
| "str_exc (OverflowError m) = m"
| "str_exc (RaisedException m) = m"
| "str_exc (SystemExit a) = str_exit_arg a"
| "str_exc (RaisedBase m) = m"

subsection \<open>\<^verbatim>\<open>repr\<close> of a finite float\<close>

text \<open>
  \<^verbatim>\<open>float.__repr__\<close> prints the shortest digits \<open>ds\<close> that give the float back, with
  the decimal point at position \<open>decpt\<close> (the value is \<open>0.ds * 10 ^ decpt\<close>): in
  exponent form when \<open>decpt\<close> is above 16 or below -3, the exponent \<open>decpt - 1\<close> signed
  and of two digits at least, and otherwise in positional form, padded with zeros and
  ending in \<^verbatim>\<open>.0\<close> when there is no fraction.
\<close>

definition strip_zeros :: "string \<Rightarrow> string" where
  "strip_zeros ds = rev (dropWhile (\<lambda>c. c = CHR ''0'') (rev ds))"

definition exponent_text :: "int \<Rightarrow> string" where
  "exponent_text x =
     (if x < 0 then ''-'' else ''+'')
     @ (if \<bar>x\<bar> < 10 then ''0'' else []) @ str_nat (nat \<bar>x\<bar>)"

definition positive_repr :: "nat \<Rightarrow> int \<Rightarrow> string" where
  "positive_repr d e =
     (if d = 0 then ''0.0''
      else
        (let ds0 = str_nat d;
             decpt = int (length ds0) + e;
             ds = strip_zeros ds0;
             n = int (length ds)
         in if 16 < decpt \<or> decpt < - 3
            then take 1 ds @ (if 1 < n then ''.'' @ drop 1 ds else []) @ ''e''
                 @ exponent_text (decpt - 1)
            else if decpt \<le> 0 then ''0.'' @ replicate (nat (- decpt)) (CHR ''0'') @ ds
            else if n \<le> decpt then ds @ replicate (nat (decpt - n)) (CHR ''0'') @ ''.0''
            else take (nat decpt) ds @ ''.'' @ drop (nat decpt) ds))"

definition float_repr :: "bool \<Rightarrow> nat \<Rightarrow> int \<Rightarrow> string" where
  "float_repr neg d e = (if neg then ''-'' else []) @ positive_repr d e"

text \<open>
  What \<^verbatim>\<open>json.dumps\<close> writes for a float: \<^verbatim>\<open>allow_nan\<close> is true, so the three
  floats that are not finite are written \<^verbatim>\<open>NaN\<close>, \<^verbatim>\<open>Infinity\<close> and
  \<^verbatim>\<open>-Infinity\<close>, which are not JSON.
\<close>

fun json_float :: "pyfloat \<Rightarrow> string" where
  "json_float FNan = ''NaN''"
| "json_float (FInf neg) = (if neg then ''-Infinity'' else ''Infinity'')"
| "json_float (FFin neg d e) = float_repr neg d e"

text \<open>The characters of a float as \<^verbatim>\<open>json.dumps\<close> writes it.\<close>

definition float_chars :: "char set" where
  "float_chars = set digit_chars \<union> set ''.e+-NaInfity''"

subsection \<open>\<^verbatim>\<open>json.dumps\<close> with its default arguments\<close>

datatype json =
    JNull
  | JBool bool
  | JNum int
  | JFloat pyfloat
  | JStr string
  | JArr "json list"
  | JObj "(string \<times> json) list"

text \<open>
  Writing an integer is \<^verbatim>\<open>int.__repr__\<close>, which raises for an integer of more than
  4300 decimal digits.
\<close>

definition int_text :: "int \<Rightarrow> pyexc + string" where
  "int_text i =
     (if 4300 < length (str_nat (nat \<bar>i\<bar>))
      then Inl (ValueError (''Exceeds the limit (4300 digits) for integer string conversion; ''
                            @ ''use sys.set_int_max_str_digits() to increase the limit''))
      else Inr (str_int i))"

text \<open>
  The member name a dict key is written under; a key of another type is a
  \<^verbatim>\<open>TypeError\<close> (\<^verbatim>\<open>skipkeys\<close> is false).
\<close>

fun json_key :: "pykey \<Rightarrow> pyexc + string" where
  "json_key (KStr s) = Inr s"
| "json_key (KInt i) = int_text i"
| "json_key (KFloat f) = Inr (json_float f)"
| "json_key (KBool b) = Inr (if b then ''true'' else ''false'')"
| "json_key KNone = Inr ''null''"
| "json_key (KOther t) =
     Inl (TypeError (''keys must be str, int, float, bool or None, not '' @ t))"

text \<open>
  The encoder walks the value in order and stops at the first thing it cannot write:
  for each dict item the key is checked before the value is encoded. A tuple is written
  as a list.
\<close>

fun to_json :: "pyval \<Rightarrow> pyexc + json"
  and to_json_list :: "pyval list \<Rightarrow> pyexc + json list"
  and to_json_items :: "(pykey \<times> pyval) list \<Rightarrow> pyexc + (string \<times> json) list" where
  "to_json PNone = Inr JNull"
| "to_json (PBool b) = Inr (JBool b)"
| "to_json (PInt i) = (case int_text i of Inl e \<Rightarrow> Inl e | Inr t \<Rightarrow> Inr (JNum i))"
| "to_json (PFloat f) = Inr (JFloat f)"
| "to_json (PStr s) = Inr (JStr s)"
| "to_json (PList xs) =
     (case to_json_list xs of Inl e \<Rightarrow> Inl e | Inr js \<Rightarrow> Inr (JArr js))"
| "to_json (PTuple xs) =
     (case to_json_list xs of Inl e \<Rightarrow> Inl e | Inr js \<Rightarrow> Inr (JArr js))"
| "to_json (PDict kvs) =
     (case to_json_items kvs of Inl e \<Rightarrow> Inl e | Inr ms \<Rightarrow> Inr (JObj ms))"
| "to_json (PObj t) =
     Inl (TypeError (''Object of type '' @ t @ '' is not JSON serializable''))"
| "to_json_list [] = Inr []"
| "to_json_list (x # xs) =
     (case to_json x of
        Inl e \<Rightarrow> Inl e
      | Inr j \<Rightarrow> (case to_json_list xs of Inl e \<Rightarrow> Inl e | Inr js \<Rightarrow> Inr (j # js)))"
| "to_json_items [] = Inr []"
| "to_json_items ((k, v) # kvs) =
     (case json_key k of
        Inl e \<Rightarrow> Inl e
      | Inr s \<Rightarrow>
          (case to_json v of
             Inl e \<Rightarrow> Inl e
           | Inr j \<Rightarrow>
               (case to_json_items kvs of Inl e \<Rightarrow> Inl e | Inr ms \<Rightarrow> Inr ((s, j) # ms))))"

text \<open>
  \<^verbatim>\<open>ensure_ascii\<close> is true: the quote and the backslash are escaped, backspace, form
  feed, newline, carriage return and tab have short escapes, and every other code point
  outside \<^verbatim>\<open>' '..'~'\<close> is written \<^verbatim>\<open>\u00NN\<close>.
\<close>

definition json_escape_char :: "char \<Rightarrow> string" where
  "json_escape_char c =
     (let n = (of_char c :: nat) in
      if c = CHR 0x22 then [CHR 0x5C, CHR 0x22]
      else if c = CHR 0x5C then [CHR 0x5C, CHR 0x5C]
      else if c = CHR 0x0A then [CHR 0x5C, CHR ''n'']
      else if c = CHR 0x0D then [CHR 0x5C, CHR ''r'']
      else if c = CHR 0x09 then [CHR 0x5C, CHR ''t'']
      else if c = CHR 0x08 then [CHR 0x5C, CHR ''b'']
      else if c = CHR 0x0C then [CHR 0x5C, CHR ''f'']
      else if n < 32 \<or> 126 < n then [CHR 0x5C, CHR ''u'', CHR ''0'', CHR ''0''] @ hex2 n
      else [c])"

definition json_string :: "string \<Rightarrow> string" where
  "json_string s = [CHR 0x22] @ concat (map json_escape_char s) @ [CHR 0x22]"

text \<open>Items are separated by \<^verbatim>\<open>", "\<close> and a key from its value by \<^verbatim>\<open>": "\<close>.\<close>

fun render :: "json \<Rightarrow> string"
  and render_list :: "json list \<Rightarrow> string"
  and render_members :: "(string \<times> json) list \<Rightarrow> string" where
  "render JNull = ''null''"
| "render (JBool b) = (if b then ''true'' else ''false'')"
| "render (JNum i) = str_int i"
| "render (JFloat f) = json_float f"
| "render (JStr s) = json_string s"
| "render (JArr js) = ''['' @ render_list js @ '']''"
| "render (JObj ms) = ''{'' @ render_members ms @ ''}''"
| "render_list [] = []"
| "render_list (j # js) =
     (if js = [] then render j else render j @ '', '' @ render_list js)"
| "render_members [] = []"
| "render_members ((k, j) # ms) =
     (if ms = [] then json_string k @ '': '' @ render j
      else json_string k @ '': '' @ render j @ '', '' @ render_members ms)"

definition json_dumps :: "pyval \<Rightarrow> pyexc + string" where
  "json_dumps v = (case to_json v of Inl e \<Rightarrow> Inl e | Inr j \<Rightarrow> Inr (render j))"

subsection \<open>\<^verbatim>\<open>str.encode("utf-8")\<close>\<close>

text \<open>A code point below 128 is one byte, one from 128 to 255 is two.\<close>

definition utf8_char :: "char \<Rightarrow> string" where
  "utf8_char c =
     (let n = (of_char c :: nat) in
      if n < 128 then [c] else [char_of (192 + n div 64), char_of (128 + n mod 64)])"

definition utf8_encode :: "string \<Rightarrow> string" where
  "utf8_encode s = concat (map utf8_char s)"

subsection \<open>\<^verbatim>\<open>int(s)\<close> for a string\<close>

text \<open>
  White space around the literal is dropped (below 256: tab to carriage return, space,
  133 and 160), then an optional sign, then decimal digits in which single underscores
  may separate digits.
\<close>

definition int_space :: "char \<Rightarrow> bool" where
  "int_space c = ((of_char c :: nat) \<in> {9, 10, 11, 12, 13, 32, 133, 160})"

definition is_digit :: "char \<Rightarrow> bool" where
  "is_digit c = (48 \<le> (of_char c :: nat) \<and> (of_char c :: nat) \<le> 57)"

definition digit_val :: "char \<Rightarrow> nat" where
  "digit_val c = of_char c - 48"

fun parse_digits :: "nat \<Rightarrow> string \<Rightarrow> nat option" where
  "parse_digits acc [] = Some acc"
| "parse_digits acc [c] =
     (if is_digit c then Some (acc * 10 + digit_val c) else None)"
| "parse_digits acc (c # d # ds) =
     (if is_digit c then parse_digits (acc * 10 + digit_val c) (d # ds)
      else if c = CHR ''_'' \<and> is_digit d then parse_digits (acc * 10 + digit_val d) ds
      else None)"

definition py_strip :: "string \<Rightarrow> string" where
  "py_strip s = rev (dropWhile int_space (rev (dropWhile int_space s)))"

definition parse_unsigned :: "string \<Rightarrow> nat option" where
  "parse_unsigned u =
     (case u of
        [] \<Rightarrow> None
      | c # cs \<Rightarrow> if is_digit c then parse_digits (digit_val c) cs else None)"

definition py_int :: "string \<Rightarrow> int option" where
  "py_int s =
     (case py_strip s of
        [] \<Rightarrow> None
      | c # cs \<Rightarrow>
          if c = CHR ''-'' then map_option (\<lambda>n. - int n) (parse_unsigned cs)
          else if c = CHR ''+'' then map_option int (parse_unsigned cs)
          else map_option int (parse_unsigned (c # cs)))"

subsection \<open>The process and its surroundings\<close>

text \<open>
  What loading the file yields (lines 33 to 42): no module spec or loader for the path,
  an exception raised while the module body runs, or a module. A module is its
  attribute table, each attribute bound to the address of an object, together with the
  heap as the module body left it. What else the body of a worker module may do while
  it runs (print, change \<^verbatim>\<open>sys.path\<close>, write to a descriptor) is not part of the
  model: the sample worker defines \<^verbatim>\<open>config\<close> and \<^verbatim>\<open>run\<close> and does nothing more.
\<close>

datatype load_result =
    SpecNone
  | ExecRaised pyexc
  | Loaded "string \<Rightarrow> nat option" "nat \<Rightarrow> pyval"

text \<open>
  The state of the process. \<open>fds\<close> gives the bytes written so far to each descriptor
  that is open for writing; descriptor 1 is standard output. \<open>stderr\<close> is the text
  printed through \<^verbatim>\<open>sys.stderr\<close>, which is taken to be writable. \<open>environ_fd\<close> is
  \<^verbatim>\<open>os.environ.get("NODE_CHANNEL_FD")\<close>. \<open>module_dir p\<close> stands for
  \<^verbatim>\<open>os.path.dirname(os.path.abspath(p))\<close>, which depends on the working directory
  and the path flavour, and \<open>load_module\<close> for the import machinery and the file
  system.

  \<open>write_limit fd n\<close> is the number of bytes that one \<^verbatim>\<open>os.write\<close> of \<open>n\<close> bytes
  to \<open>fd\<close> transfers: the system call may take fewer bytes than it is given (a pipe
  or socket that is nearly full), and returns how many it took. \<open>stdout_fault\<close> is
  \<open>Some (k, m)\<close> when writing through the buffer of standard output fails with the
  \<^verbatim>\<open>OSError\<close> \<open>m\<close> after \<open>k\<close> bytes have gone out.
\<close>

record world =
  windows :: bool
  environ_fd :: "string option"
  sys_path :: "string list"
  fds :: "int \<Rightarrow> string option"
  stderr :: string
  heap :: "nat \<Rightarrow> pyval"
  module_dir :: "string \<Rightarrow> string"
  load_module :: "string \<Rightarrow> load_result"
  write_limit :: "int \<Rightarrow> nat \<Rightarrow> nat"
  stdout_fault :: "(nat \<times> string) option"

text \<open>
  \<^verbatim>\<open>os.write(fd, bs)\<close>: one system call. It raises on a number that is no C int
  and on a descriptor that is not open for writing; otherwise it appends the bytes
  the call takes, a prefix of the buffer, and returns their number.
\<close>

definition os_write :: "int \<Rightarrow> string \<Rightarrow> world \<Rightarrow> (pyexc + nat) \<times> world" where
  "os_write fd bs w =
     (if fd < - 2147483648 \<or> 2147483647 < fd
      then (Inl (OverflowError ''Python int too large to convert to C int''), w)
      else (case fds w fd of
              None \<Rightarrow> (Inl (OSError ''[Errno 9] Bad file descriptor''), w)
            | Some old \<Rightarrow>
                (let taken = take (write_limit w fd (length bs)) bs
                 in (Inr (length taken), w\<lparr>fds := (fds w)(fd \<mapsto> old @ taken)\<rparr>))))"

text \<open>
  \<^verbatim>\<open>sys.stdout.buffer.write(bs)\<close> followed by \<^verbatim>\<open>flush()\<close>: the buffered writer
  repeats the system call until the whole buffer has gone out, or raises.
\<close>

definition stdout_write :: "string \<Rightarrow> world \<Rightarrow> (pyexc + unit) \<times> world" where
  "stdout_write bs w =
     (case fds w 1 of
        None \<Rightarrow> (Inl (ValueError ''write to closed file''), w)
      | Some old \<Rightarrow>
          (case stdout_fault w of
             None \<Rightarrow> (Inr (), w\<lparr>fds := (fds w)(1 \<mapsto> old @ bs)\<rparr>)
           | Some (k, m) \<Rightarrow> (Inl (OSError m), w\<lparr>fds := (fds w)(1 \<mapsto> old @ take k bs)\<rparr>)))"

text \<open>\<^verbatim>\<open>int(os.environ["NODE_CHANNEL_FD"])\<close>.\<close>

definition channel_fd :: "world \<Rightarrow> pyexc + int" where
  "channel_fd w =
     (case environ_fd w of
        None \<Rightarrow> Inl (KeyError ''NODE_CHANNEL_FD'')
      | Some v \<Rightarrow>
          (case py_int v of
             None \<Rightarrow> Inl (ValueError (''invalid literal for int() with base 10: '' @ py_repr v))
           | Some fd \<Rightarrow> Inr fd))"

text \<open>
  \<^verbatim>\<open>send_message\<close>, lines 8 to 23. On line 23 the number that \<^verbatim>\<open>os.write\<close>
  returns is dropped.
\<close>

definition send_message :: "pyval \<Rightarrow> world \<Rightarrow> (pyexc + unit) \<times> world" where
  "send_message payload w =
     (case json_dumps payload of
        Inl e \<Rightarrow> (Inl e, w)
      | Inr s \<Rightarrow>
          (let bytes_message = utf8_encode (s @ [CHR 0x0A]) in
           if windows w then stdout_write bytes_message w
           else (case channel_fd w of
                   Inl e \<Rightarrow> (Inl e, w)
                 | Inr fd \<Rightarrow>
                     (case os_write fd bytes_message w of
                        (Inl e, w') \<Rightarrow> (Inl e, w')
                      | (Inr n, w') \<Rightarrow> (Inr (), w')))))"

text \<open>\<^verbatim>\<open>del d[k]\<close> on a dict that holds the key.\<close>

definition dict_del :: "pykey \<Rightarrow> (pykey \<times> pyval) list \<Rightarrow> (pykey \<times> pyval) list" where
  "dict_del k kvs = filter (\<lambda>kv. fst kv \<noteq> k) kvs"

text \<open>
  Lines 49 and 50: \<^verbatim>\<open>cfg\<close> is the object at address \<open>a\<close>, the one the module's
  \<^verbatim>\<open>config\<close> attribute is bound to, and the deletion updates it in place.
\<close>

definition strip_middleware :: "nat \<Rightarrow> world \<Rightarrow> world" where
  "strip_middleware a w =
     (case heap w a of
        PDict kvs \<Rightarrow>
          if KStr ''middleware'' \<in> fst ` set kvs
          then w\<lparr>heap := (heap w)(a := PDict (dict_del (KStr ''middleware'') kvs))\<rparr>
          else w
      | _ \<Rightarrow> w)"

text \<open>Lines 30 and 31.\<close>

definition insert_module_dir :: "string \<Rightarrow> world \<Rightarrow> world" where
  "insert_module_dir d w =
     (if d \<notin> set (sys_path w) then w\<lparr>sys_path := d # sys_path w\<rparr> else w)"

text \<open>The body of the \<^verbatim>\<open>try\<close> block, lines 28 to 52.\<close>

definition try_block :: "string \<Rightarrow> world \<Rightarrow> (pyexc + unit) \<times> world" where
  "try_block file_path w =
     (let w1 = insert_module_dir (module_dir w file_path) w in
      case load_module w1 file_path of
        SpecNone \<Rightarrow> (Inl (ImportError (''Could not load module from '' @ file_path)), w1)
      | ExecRaised e \<Rightarrow> (Inl e, w1)
      | Loaded attrs h \<Rightarrow>
          (let w2 = w1\<lparr>heap := h\<rparr> in
           case attrs ''config'' of
             None \<Rightarrow>
               (Inl (AttributeError (''No 'config' found in module '' @ file_path)), w2)
           | Some a \<Rightarrow>
               (let w3 = strip_middleware a w2 in send_message (heap w3 a) w3)))"

text \<open>\<^verbatim>\<open>print("Error running Python module:", str(error), file=sys.stderr)\<close>.\<close>

definition print_error :: "pyexc \<Rightarrow> world \<Rightarrow> world" where
  "print_error e w =
     w\<lparr>stderr := stderr w @ ''Error running Python module:'' @ '' '' @ str_exc e @ [CHR 0x0A]\<rparr>"

text \<open>
  \<^verbatim>\<open>run_python_module\<close>: the \<^verbatim>\<open>try\<close> block under \<^verbatim>\<open>except Exception\<close>, whose
  handler prints and calls \<^verbatim>\<open>sys.exit(1)\<close>, that is, raises \<^verbatim>\<open>SystemExit(1)\<close>.
  An exception the handler does not catch leaves the function as it is.
\<close>

definition run_python_module :: "string \<Rightarrow> world \<Rightarrow> (pyexc + unit) \<times> world" where
  "run_python_module file_path w =
     (case try_block file_path w of
        (Inr u, w') \<Rightarrow> (Inr u, w')
      | (Inl e, w') \<Rightarrow>
          if is_Exception e then (Inl (SystemExit (ExitInt 1)), print_error e w')
          else (Inl e, w'))"

text \<open>
  How the process ends: with an exit status, or with an exception other than
  \<^verbatim>\<open>SystemExit\<close> reaching the top level.
\<close>

datatype ending = Exited int | Crashed pyexc

text \<open>
  The status of a process that ends with \<^verbatim>\<open>SystemExit(n)\<close>: the interpreter turns
  \<open>n\<close> into a C long, or into -1 when it does not fit, and the system keeps the
  low 8 bits, on Windows the low 32 bits, where a C long has 32 bits.
\<close>

definition exit_status :: "bool \<Rightarrow> int \<Rightarrow> int" where
  "exit_status win n =
     (if win
      then (if - 2147483648 \<le> n \<and> n \<le> 2147483647 then n mod 4294967296 else 4294967295)
      else (if - 9223372036854775808 \<le> n \<and> n \<le> 9223372036854775807 then n mod 256 else 255))"

text \<open>
  What the interpreter does with the outcome of the script: status 0 when it runs to
  its end; for \<^verbatim>\<open>SystemExit\<close> status 0 without an argument, the status of an integer
  argument, and for another argument its text on the error stream and status 1.
\<close>

definition top_level :: "(pyexc + unit) \<times> world \<Rightarrow> ending \<times> world" where
  "top_level rw =
     (case rw of
        (Inr u, w) \<Rightarrow> (Exited 0, w)
      | (Inl (SystemExit ExitNone), w) \<Rightarrow> (Exited 0, w)
      | (Inl (SystemExit (ExitInt n)), w) \<Rightarrow> (Exited (exit_status (windows w) n), w)
      | (Inl (SystemExit (ExitObj s)), w) \<Rightarrow> (Exited 1, w\<lparr>stderr := stderr w @ s @ [CHR 0x0A]\<rparr>)
      | (Inl e, w) \<Rightarrow> (Crashed e, w))"

text \<open>The \<^verbatim>\<open>__main__\<close> block, lines 58 to 64, given \<^verbatim>\<open>sys.argv\<close>.\<close>

definition main :: "string list \<Rightarrow> world \<Rightarrow> ending \<times> world" where
  "main argv w =
     top_level
       (if length argv < 2 then (Inl (SystemExit (ExitInt 1)), w)
        else run_python_module (argv ! 1) w)"

subsection \<open>Sample inputs\<close>

text \<open>
  The \<^verbatim>\<open>config\<close> of the sample worker \<^verbatim>\<open>playground/server/queues/hello.py\<close>, a
  module that binds \<^verbatim>\<open>config\<close> to a given value and \<^verbatim>\<open>run\<close> to a function, and a
  process with standard output and descriptor 3 open, in which every write is
  complete.
\<close>

definition hello_config :: pyval where
  "hello_config =
     PDict [(KStr ''queue'', PStr ''hello''),
            (KStr ''flow'',
             PDict [(KStr ''name'', PList [PStr ''welcome-flow'']),
                    (KStr ''role'', PStr ''entry''),
                    (KStr ''step'', PStr ''hello''),
                    (KStr ''emits'', PList [PStr ''hello.done''])])]"

definition module_of :: "pyval \<Rightarrow> load_result" where
  "module_of cfg =
     Loaded (\<lambda>name. if name = ''config'' then Some 0 else if name = ''run'' then Some 1 else None)
            (\<lambda>a. if a = 0 then cfg else if a = 1 then PObj ''function'' else PNone)"

definition sample_world :: "bool \<Rightarrow> string option \<Rightarrow> load_result \<Rightarrow> world" where
  "sample_world win env m =
     \<lparr>windows = win, environ_fd = env, sys_path = [''/usr/lib/python3''],
      fds = (\<lambda>fd. if fd = 1 \<or> fd = 3 then Some [] else None), stderr = [],
      heap = (\<lambda>a. PNone), module_dir = (\<lambda>p. ''/app/server/queues''),
      load_module = (\<lambda>p. m), write_limit = (\<lambda>fd n. n), stdout_fault = None\<rparr>"


definition sample_argv :: "string list" where
  "sample_argv = [''get_config.py'', ''/app/server/queues/hello.py'']"

definition unix_world :: "pyval \<Rightarrow> world" where
  "unix_world cfg = sample_world False (Some ''3'') (module_of cfg)"

text \<open>
  The same process when the channel, a pipe that is nearly full, takes no more than 50
  bytes in one write.
\<close>

definition short_write_world :: "pyval \<Rightarrow> world" where
  "short_write_world cfg = (unix_world cfg)\<lparr>write_limit := (\<lambda>fd n. min n 50)\<rparr>"

section \<open>Properties of the model\<close>

lemma digit_of_mem: "digit_of n \<in> set digit_chars"
  unfolding digit_of_def by (rule nth_mem) (simp add: digit_chars_def)

lemma digit_chars_printable: "c \<in> set digit_chars \<Longrightarrow> 32 \<le> (of_char c :: nat) \<and> (of_char c :: nat) \<le> 126"
  by (auto simp: digit_chars_def)

lemma digit_of_printable: "32 \<le> (of_char (digit_of n) :: nat) \<and> (of_char (digit_of n) :: nat) \<le> 126"
  using digit_of_mem digit_chars_printable by blast

lemma str_nat_digits: "c \<in> set (str_nat n) \<Longrightarrow> c \<in> set digit_chars"
proof (induction n rule: str_nat.induct)
  case (1 n)
  show ?case
  proof (cases "n < 10")
    case True
    with "1.prems" have "c = digit_of n" by (simp add: str_nat.simps [of n])
    then show ?thesis using digit_of_mem by simp
  next
    case False
    with "1.prems" have "c \<in> set (str_nat (n div 10)) \<or> c = digit_of (n mod 10)"
      by (auto simp: str_nat.simps [of n])
    then show ?thesis using "1.IH" False digit_of_mem by auto
  qed
qed

lemma str_nat_printable: "c \<in> set (str_nat n) \<Longrightarrow> 32 \<le> (of_char c :: nat) \<and> (of_char c :: nat) \<le> 126"
  using str_nat_digits digit_chars_printable by blast


lemma str_int_printable: "c \<in> set (str_int i) \<Longrightarrow> 32 \<le> (of_char c :: nat) \<and> (of_char c :: nat) \<le> 126"
  using str_nat_printable by (auto simp: str_int_def split: if_splits)

lemma hex2_printable: "c \<in> set (hex2 n) \<Longrightarrow> 32 \<le> (of_char c :: nat) \<and> (of_char c :: nat) \<le> 126"
  using digit_of_printable by (auto simp: hex2_def)

lemma json_escape_char_printable:
  "c \<in> set (json_escape_char x) \<Longrightarrow> 32 \<le> (of_char c :: nat) \<and> (of_char c :: nat) \<le> 126"
  using hex2_printable [of c "of_char x"]
  by (auto simp: json_escape_char_def Let_def split: if_splits)

lemma json_string_printable:
  "c \<in> set (json_string s) \<Longrightarrow> 32 \<le> (of_char c :: nat) \<and> (of_char c :: nat) \<le> 126"
  using json_escape_char_printable by (auto simp: json_string_def)

lemma strip_zeros_mem: "c \<in> set (strip_zeros ds) \<Longrightarrow> c \<in> set ds"
  unfolding strip_zeros_def using set_dropWhileD [of c "\<lambda>c. c = CHR ''0''" "rev ds"] by simp

lemma digit_in_float_chars: "c \<in> set digit_chars \<Longrightarrow> c \<in> float_chars"
  by (simp add: float_chars_def)

lemma float_chars_signs:
  "CHR ''-'' \<in> float_chars" "CHR ''+'' \<in> float_chars" "CHR ''0'' \<in> float_chars"
  "CHR ''.'' \<in> float_chars" "CHR ''e'' \<in> float_chars"
  by (simp_all add: float_chars_def digit_chars_def)

lemma str_nat_float_chars: "c \<in> set (str_nat n) \<Longrightarrow> c \<in> float_chars"
  by (rule digit_in_float_chars) (rule str_nat_digits)

lemma exponent_text_chars:
  assumes "c \<in> set (exponent_text x)"
  shows "c \<in> float_chars"
proof -
  from assms have "c = CHR ''-'' \<or> c = CHR ''+'' \<or> c = CHR ''0'' \<or> c \<in> set (str_nat (nat \<bar>x\<bar>))"
    unfolding exponent_text_def by (cases "x < 0"; cases "\<bar>x\<bar> < 10"; simp; blast)
  then show ?thesis
    using float_chars_signs str_nat_float_chars by blast
qed

lemma positive_repr_chars:
  assumes c: "c \<in> set (positive_repr d e)"
  shows "c \<in> float_chars"
proof (cases "d = 0")
  case True
  with c have "c = CHR ''0'' \<or> c = CHR ''.''" by (simp add: positive_repr_def) blast
  then show ?thesis using float_chars_signs by blast
next
  case False
  define ds where "ds = strip_zeros (str_nat d)"
  define decpt where "decpt = int (length (str_nat d)) + e"
  define n where "n = int (length ds)"
  have eq: "positive_repr d e =
      (if 16 < decpt \<or> decpt < - 3
       then take 1 ds @ (if 1 < n then ''.'' @ drop 1 ds else []) @ ''e''
            @ exponent_text (decpt - 1)
       else if decpt \<le> 0 then ''0.'' @ replicate (nat (- decpt)) (CHR ''0'') @ ds
       else if n \<le> decpt then ds @ replicate (nat (decpt - n)) (CHR ''0'') @ ''.0''
       else take (nat decpt) ds @ ''.'' @ drop (nat decpt) ds)"
    using False unfolding positive_repr_def ds_def decpt_def n_def by (simp add: Let_def)
  have ds: "\<And>x. x \<in> set ds \<Longrightarrow> x \<in> float_chars"
    unfolding ds_def using strip_zeros_mem str_nat_float_chars by blast
  have tk: "\<And>k x. x \<in> set (take k ds) \<Longrightarrow> x \<in> float_chars"
    using ds in_set_takeD by fastforce
  have dr: "\<And>k x. x \<in> set (drop k ds) \<Longrightarrow> x \<in> float_chars"
    using ds in_set_dropD by fastforce
  from c have "c \<in> set ds \<or> (\<exists>k. c \<in> set (take k ds)) \<or> (\<exists>k. c \<in> set (drop k ds))
      \<or> c = CHR ''0'' \<or> c = CHR ''.'' \<or> c = CHR ''e''
      \<or> (\<exists>x. c \<in> set (exponent_text x))"
    unfolding eq
    by (cases "16 < decpt \<or> decpt < - 3"; cases "1 < n"; cases "decpt \<le> 0"; cases "n \<le> decpt";
        simp; blast)
  then show ?thesis using ds tk dr float_chars_signs exponent_text_chars by blast
qed

lemma float_chars_letters: "c \<in> set ''NaInfity'' \<Longrightarrow> c \<in> float_chars"
  by (simp add: float_chars_def) (elim disjE; simp)

lemma json_float_chars:
  assumes c: "c \<in> set (json_float f)"
  shows "c \<in> float_chars"
proof (cases f)
  case FNan
  with c have "c \<in> set ''NaInfity''" by simp (elim disjE; simp)
  then show ?thesis by (rule float_chars_letters)
next
  case (FInf neg)
  with c have "c = CHR ''-'' \<or> c \<in> set ''NaInfity''"
    by (cases neg; simp; elim disjE; simp)
  then show ?thesis using float_chars_signs(1) float_chars_letters by blast
next
  case (FFin neg d e)
  with c have "c = CHR ''-'' \<or> c \<in> set (positive_repr d e)"
    by (cases neg; simp add: float_repr_def)
  then show ?thesis using positive_repr_chars float_chars_signs(1) by blast
qed

lemma float_chars_printable:
  assumes "c \<in> float_chars"
  shows "32 \<le> (of_char c :: nat) \<and> (of_char c :: nat) \<le> 126"
proof -
  from assms have "c \<in> set digit_chars \<or> c \<in> set ''.e+-NaInfity''"
    by (simp add: float_chars_def) (elim disjE; simp)
  then show ?thesis
  proof
    assume "c \<in> set digit_chars"
    then show ?thesis by (rule digit_chars_printable)
  next
    assume "c \<in> set ''.e+-NaInfity''"
    then show ?thesis by simp (elim disjE; simp)
  qed
qed

lemma json_float_printable:
  "c \<in> set (json_float f) \<Longrightarrow> 32 \<le> (of_char c :: nat) \<and> (of_char c :: nat) \<le> 126"
  by (rule float_chars_printable) (rule json_float_chars)

lemma render_printable:
  "\<forall>c \<in> set (render j). 32 \<le> (of_char c :: nat) \<and> (of_char c :: nat) \<le> 126"
  "\<forall>c \<in> set (render_list js). 32 \<le> (of_char c :: nat) \<and> (of_char c :: nat) \<le> 126"
  "\<forall>c \<in> set (render_members ms). 32 \<le> (of_char c :: nat) \<and> (of_char c :: nat) \<le> 126"
proof (induction j and js and ms rule: render_render_list_render_members.induct)
  case (3 i)
  then show ?case using str_int_printable by auto
next
  case (4 f)
  then show ?case using json_float_printable by auto
next
  case (5 s)
  then show ?case using json_string_printable by auto
next
  case (11 k j ms)
  then show ?case using json_string_printable [of _ k] by auto
qed auto

lemma utf8_encode_ascii: "\<forall>c \<in> set s. (of_char c :: nat) < 128 \<Longrightarrow> utf8_encode s = s"
  by (induction s) (auto simp: utf8_encode_def utf8_char_def)

lemma render_bytes: "utf8_encode (render j @ [CHR 0x0A]) = render j @ [CHR 0x0A]"
proof (rule utf8_encode_ascii)
  show "\<forall>c \<in> set (render j @ [CHR 0x0A]). (of_char c :: nat) < 128"
    using render_printable(1) [of j] by auto
qed

lemma render_no_newline: "CHR 0x0A \<notin> set (render j)"
proof
  assume "CHR 0x0A \<in> set (render j)"
  with render_printable(1) [of j] have "32 \<le> (of_char (CHR 0x0A) :: nat)" by blast
  then show False by simp
qed

lemma channel_fd_error: "channel_fd w = Inl e \<Longrightarrow> is_Exception e"
  by (auto simp: channel_fd_def split: option.splits)

lemma int_text_error: "int_text i = Inl e \<Longrightarrow> is_Exception e"
  by (auto simp: int_text_def split: if_splits)

lemma json_key_error: "json_key k = Inl e \<Longrightarrow> is_Exception e"
  using int_text_error by (cases k) auto

lemma to_json_error:
  "to_json v = Inl e \<Longrightarrow> is_Exception e"
  "to_json_list vs = Inl e \<Longrightarrow> is_Exception e"
  "to_json_items kvs = Inl e \<Longrightarrow> is_Exception e"
proof (induction v and vs and kvs rule: to_json_to_json_list_to_json_items.induct)
  case (3 i)
  then show ?case using int_text_error [of i e] by (auto split: sum.splits)
next
  case (13 k v kvs)
  then show ?case using json_key_error [of k e] by (auto split: sum.splits)
qed (auto split: sum.splits)

lemma json_dumps_error: "json_dumps v = Inl e \<Longrightarrow> is_Exception e"
  using to_json_error(1) by (auto simp: json_dumps_def split: sum.splits)

lemma json_dumps_render: "to_json v = Inr j \<Longrightarrow> json_dumps v = Inr (render j)"
  by (simp add: json_dumps_def)

lemma json_dumps_Inr: "json_dumps v = Inr s \<Longrightarrow> \<exists>j. to_json v = Inr j \<and> s = render j"
  by (auto simp: json_dumps_def split: sum.splits)

lemma exit_status_1 [simp]: "exit_status win 1 = 1"
  by (simp add: exit_status_def)

lemma insert_module_dir_fields [simp]:
  "windows (insert_module_dir d w) = windows w"
  "environ_fd (insert_module_dir d w) = environ_fd w"
  "fds (insert_module_dir d w) = fds w"
  "stderr (insert_module_dir d w) = stderr w"
  "heap (insert_module_dir d w) = heap w"
  "module_dir (insert_module_dir d w) = module_dir w"
  "load_module (insert_module_dir d w) = load_module w"
  "write_limit (insert_module_dir d w) = write_limit w"
  "stdout_fault (insert_module_dir d w) = stdout_fault w"
  by (simp_all add: insert_module_dir_def)

lemma strip_middleware_fields [simp]:
  "windows (strip_middleware a w) = windows w"
  "environ_fd (strip_middleware a w) = environ_fd w"
  "fds (strip_middleware a w) = fds w"
  "stderr (strip_middleware a w) = stderr w"
  "sys_path (strip_middleware a w) = sys_path w"
  "write_limit (strip_middleware a w) = write_limit w"
  "stdout_fault (strip_middleware a w) = stdout_fault w"
  by (simp_all add: strip_middleware_def split: pyval.splits)

lemma channel_fd_cong [simp]:
  "channel_fd (strip_middleware a w) = channel_fd w"
  "channel_fd (insert_module_dir d w) = channel_fd w"
  "channel_fd (w\<lparr>heap := h\<rparr>) = channel_fd w"
  by (simp_all add: channel_fd_def)

lemma print_error_fields [simp]:
  "fds (print_error e w) = fds w"
  "heap (print_error e w) = heap w"
  "sys_path (print_error e w) = sys_path w"
  "windows (print_error e w) = windows w"
  "stderr (print_error e w) = stderr w @ ''Error running Python module: '' @ str_exc e @ [CHR 0x0A]"
  by (simp_all add: print_error_def)

lemma dict_del_absent: "k \<notin> fst ` set kvs \<Longrightarrow> dict_del k kvs = kvs"
  by (induction kvs) (auto simp: dict_del_def)


lemma heap_strip_middleware:
  "heap (strip_middleware a w) b =
     (if b = a then (case heap w a of PDict kvs \<Rightarrow> PDict (dict_del (KStr ''middleware'') kvs) | v \<Rightarrow> v)
      else heap w b)"
  by (auto simp: strip_middleware_def dict_del_absent split: pyval.splits)

lemma strip_middleware_non_dict:
  assumes "\<forall>kvs. heap w a \<noteq> PDict kvs"
  shows "strip_middleware a w = w"
  using assms by (cases "heap w a") (simp_all add: strip_middleware_def)

text \<open>What \<^verbatim>\<open>send_message\<close> does, case by case.\<close>

lemma send_message_unserializable:
  "json_dumps v = Inl e \<Longrightarrow> send_message v w = (Inl e, w)"
  by (simp add: send_message_def)

lemma send_message_windows:
  assumes "to_json v = Inr j" and "windows w"
  shows "send_message v w = stdout_write (render j @ [CHR 0x0A]) w"
  using assms by (simp add: send_message_def json_dumps_def render_bytes)

lemma send_message_no_channel:
  assumes "\<not> windows w" and "channel_fd w = Inl e" and "json_dumps v = Inr js"
  shows "send_message v w = (Inl e, w)"
  using assms by (simp add: send_message_def)

lemma send_message_unix:
  assumes "to_json v = Inr j" and "\<not> windows w" and "channel_fd w = Inr fd"
  shows "send_message v w =
           (case os_write fd (render j @ [CHR 0x0A]) w of
              (Inl e, w') \<Rightarrow> (Inl e, w')
            | (Inr n, w') \<Rightarrow> (Inr (), w'))"
  using assms by (simp add: send_message_def json_dumps_def render_bytes)

lemma os_write_cases:
  assumes "os_write fd bs w = (r, w')"
  shows "(\<exists>old. fds w fd = Some old \<and> r = Inr (length (take (write_limit w fd (length bs)) bs))
            \<and> w' = w\<lparr>fds := (fds w)(fd \<mapsto> old @ take (write_limit w fd (length bs)) bs)\<rparr>)
       \<or> (\<exists>e. r = Inl e \<and> is_Exception e \<and> w' = w)"
  using assms by (auto simp: os_write_def Let_def split: if_splits option.splits)

lemma stdout_write_cases:
  assumes "stdout_write bs w = (r, w')"
  shows "(r = Inr () \<and> stdout_fault w = None
          \<and> (\<exists>old. fds w 1 = Some old \<and> w' = w\<lparr>fds := (fds w)(1 \<mapsto> old @ bs)\<rparr>))
       \<or> (\<exists>e. r = Inl e \<and> is_Exception e
             \<and> (w' = w
                \<or> (\<exists>old k m. fds w 1 = Some old \<and> stdout_fault w = Some (k, m)
                       \<and> w' = w\<lparr>fds := (fds w)(1 \<mapsto> old @ take k bs)\<rparr>)))"
  using assms by (auto simp: stdout_write_def split: option.splits)

lemma send_message_cases:
  assumes "send_message v w = (r, w')"
  shows "(r = Inr ()
          \<and> (\<exists>fd old j k. to_json v = Inr j \<and> fds w fd = Some old
                \<and> (if windows w then fd = 1 \<and> k = length (render j @ [CHR 0x0A])
                    else channel_fd w = Inr fd
                         \<and> k = write_limit w fd (length (render j @ [CHR 0x0A])))
                \<and> w' = w\<lparr>fds := (fds w)(fd \<mapsto> old @ take k (render j @ [CHR 0x0A]))\<rparr>))
       \<or> (\<exists>e. r = Inl e \<and> is_Exception e
             \<and> (w' = w
                \<or> (windows w
                   \<and> (\<exists>old k m j. to_json v = Inr j \<and> fds w 1 = Some old
                          \<and> stdout_fault w = Some (k, m)
                          \<and> w' = w\<lparr>fds := (fds w)(1 \<mapsto> old @ take k (render j @ [CHR 0x0A]))\<rparr>))))"
proof (cases "to_json v")
  case (Inl e)
  then show ?thesis using assms to_json_error(1) [of v e]
    by (auto simp: send_message_def json_dumps_def)
next
  case (Inr j)
  show ?thesis
  proof (cases "windows w")
    case True
    from send_message_windows [OF Inr True] assms
    have "stdout_write (render j @ [CHR 0x0A]) w = (r, w')" by simp
    from stdout_write_cases [OF this] show ?thesis
    proof
      assume a: "r = Inr () \<and> stdout_fault w = None
          \<and> (\<exists>old. fds w 1 = Some old
                \<and> w' = w\<lparr>fds := (fds w)(1 \<mapsto> old @ (render j @ [CHR 0x0A]))\<rparr>)"
      then obtain old where old: "fds w 1 = Some old"
        and w': "w' = w\<lparr>fds := (fds w)(1 \<mapsto> old @ (render j @ [CHR 0x0A]))\<rparr>"
        by blast
      have "to_json v = Inr j \<and> fds w 1 = Some old
                \<and> (if windows w then (1::int) = 1 \<and> length (render j @ [CHR 0x0A]) = length (render j @ [CHR 0x0A])
                    else channel_fd w = Inr 1
                         \<and> length (render j @ [CHR 0x0A]) = write_limit w 1 (length (render j @ [CHR 0x0A])))
                \<and> w' = w\<lparr>fds := (fds w)(1 \<mapsto> old @ take (length (render j @ [CHR 0x0A])) (render j @ [CHR 0x0A]))\<rparr>"
        using Inr old True w' by simp
      then have "\<exists>fd old j k. to_json v = Inr j \<and> fds w fd = Some old
                \<and> (if windows w then fd = 1 \<and> k = length (render j @ [CHR 0x0A])
                    else channel_fd w = Inr fd
                         \<and> k = write_limit w fd (length (render j @ [CHR 0x0A])))
                \<and> w' = w\<lparr>fds := (fds w)(fd \<mapsto> old @ take k (render j @ [CHR 0x0A]))\<rparr>"
        by blast
      with a show ?thesis by blast
    next
      assume "\<exists>e. r = Inl e \<and> is_Exception e
             \<and> (w' = w
                \<or> (\<exists>old k m. fds w 1 = Some old \<and> stdout_fault w = Some (k, m)
                       \<and> w' = w\<lparr>fds := (fds w)(1 \<mapsto> old @ take k (render j @ [CHR 0x0A]))\<rparr>))"
      with True Inr show ?thesis by blast
    qed
  next
    case False
    show ?thesis
    proof (cases "channel_fd w")
      case (Inl e)
      then show ?thesis using assms Inr False channel_fd_error [of w e]
        by (auto simp: send_message_def json_dumps_def)
    next
      case fd: (Inr fd)
      obtain r0 w0 where ow: "os_write fd (render j @ [CHR 0x0A]) w = (r0, w0)"
        by (cases "os_write fd (render j @ [CHR 0x0A]) w")
      from send_message_unix [OF Inr False fd] assms ow
      have rw: "(case r0 of Inl e \<Rightarrow> (Inl e, w0) | Inr n \<Rightarrow> (Inr (), w0)) = (r, w')"
        by simp
      from os_write_cases [OF ow] show ?thesis
      proof
        assume "\<exists>old. fds w fd = Some old
            \<and> r0 = Inr (length (take (write_limit w fd (length (render j @ [CHR 0x0A]))) (render j @ [CHR 0x0A])))
            \<and> w0 = w\<lparr>fds := (fds w)(fd \<mapsto> old @ take (write_limit w fd (length (render j @ [CHR 0x0A]))) (render j @ [CHR 0x0A]))\<rparr>"
        then obtain old where old: "fds w fd = Some old"
          and r0: "r0 = Inr (length (take (write_limit w fd (length (render j @ [CHR 0x0A]))) (render j @ [CHR 0x0A])))"
          and w0: "w0 = w\<lparr>fds := (fds w)(fd \<mapsto> old @ take (write_limit w fd (length (render j @ [CHR 0x0A]))) (render j @ [CHR 0x0A]))\<rparr>"
          by blast
        from rw r0 have r: "r = Inr ()" and w': "w' = w0" by simp_all
        have "to_json v = Inr j \<and> fds w fd = Some old
                \<and> (if windows w then fd = 1 \<and> write_limit w fd (length (render j @ [CHR 0x0A])) = length (render j @ [CHR 0x0A])
                    else channel_fd w = Inr fd
                         \<and> write_limit w fd (length (render j @ [CHR 0x0A])) = write_limit w fd (length (render j @ [CHR 0x0A])))
                \<and> w' = w\<lparr>fds := (fds w)(fd \<mapsto> old @ take (write_limit w fd (length (render j @ [CHR 0x0A]))) (render j @ [CHR 0x0A]))\<rparr>"
          using Inr old False fd w' w0 by simp
        then have "\<exists>fd old j k. to_json v = Inr j \<and> fds w fd = Some old
                \<and> (if windows w then fd = 1 \<and> k = length (render j @ [CHR 0x0A])
                    else channel_fd w = Inr fd
                         \<and> k = write_limit w fd (length (render j @ [CHR 0x0A])))
                \<and> w' = w\<lparr>fds := (fds w)(fd \<mapsto> old @ take k (render j @ [CHR 0x0A]))\<rparr>"
          by blast
        with r show ?thesis by blast
      next
        assume "\<exists>e. r0 = Inl e \<and> is_Exception e \<and> w0 = w"
        with rw show ?thesis by auto
      qed
    qed
  qed
qed

lemma send_message_frame:
  assumes "send_message v w = (r, w')"
  shows "sys_path w' = sys_path w \<and> stderr w' = stderr w \<and> heap w' = heap w
       \<and> windows w' = windows w"
  using send_message_cases [OF assms] by auto

text \<open>The \<^verbatim>\<open>try\<close> block, by what loading the module yields.\<close>

lemma try_block_SpecNone:
  "load_module w p = SpecNone \<Longrightarrow>
   try_block p w = (Inl (ImportError (''Could not load module from '' @ p)),
                    insert_module_dir (module_dir w p) w)"
  by (simp add: try_block_def Let_def)

lemma try_block_ExecRaised:
  "load_module w p = ExecRaised e \<Longrightarrow>
   try_block p w = (Inl e, insert_module_dir (module_dir w p) w)"
  by (simp add: try_block_def Let_def)

lemma try_block_no_config:
  "load_module w p = Loaded attrs h \<Longrightarrow> attrs ''config'' = None \<Longrightarrow>
   try_block p w = (Inl (AttributeError (''No 'config' found in module '' @ p)),
                    insert_module_dir (module_dir w p) w\<lparr>heap := h\<rparr>)"
  by (simp add: try_block_def Let_def)

lemma try_block_loaded:
  assumes "load_module w p = Loaded attrs h" and "attrs ''config'' = Some a"
  shows "try_block p w =
           send_message
             (heap (strip_middleware a (insert_module_dir (module_dir w p) w\<lparr>heap := h\<rparr>)) a)
             (strip_middleware a (insert_module_dir (module_dir w p) w\<lparr>heap := h\<rparr>))"
  using assms by (simp add: try_block_def Let_def)

text \<open>The process, by how the \<^verbatim>\<open>try\<close> block ends.\<close>

lemma main_pair: "main [prog, p] w = top_level (run_python_module p w)"
  by (simp add: main_def)

lemma main_argv: "\<not> length argv < 2 \<Longrightarrow> main argv w = main [argv ! 0, argv ! 1] w"
  by (simp add: main_def)

lemma main_returns:
  "try_block p w = (Inr (), w1) \<Longrightarrow> main [prog, p] w = (Exited 0, w1)"
  by (simp add: main_def run_python_module_def top_level_def)

lemma main_caught:
  "try_block p w = (Inl e, w1) \<Longrightarrow> is_Exception e \<Longrightarrow>
   main [prog, p] w = (Exited 1, print_error e w1)"
  by (simp add: main_def run_python_module_def top_level_def)

lemma main_uncaught:
  "try_block p w = (Inl e, w1) \<Longrightarrow> \<not> is_Exception e \<Longrightarrow>
   main [prog, p] w = top_level (Inl e, w1)"
  by (simp add: main_def run_python_module_def)

lemma run_python_module_cases:
  assumes "run_python_module p w = (r, w')"
  shows "\<exists>r1 w1. try_block p w = (r1, w1)
           \<and> ((r1 = Inr () \<and> r = Inr () \<and> w' = w1)
              \<or> (\<exists>e. r1 = Inl e \<and> is_Exception e \<and> r = Inl (SystemExit (ExitInt 1))
                     \<and> w' = print_error e w1)
              \<or> (\<exists>e. r1 = Inl e \<and> \<not> is_Exception e \<and> r = Inl e \<and> w' = w1))"
  using assms
  by (cases "try_block p w") (auto simp: run_python_module_def split: sum.splits if_splits)

lemma main_try_block:
  assumes "main [prog, p] w = (r, w')"
  shows "\<exists>r1 w1. try_block p w = (r1, w1)
           \<and> ((r1 = Inr () \<and> r = Exited 0 \<and> w' = w1)
              \<or> (\<exists>e. r1 = Inl e \<and> is_Exception e \<and> r = Exited 1 \<and> w' = print_error e w1)
              \<or> (\<exists>e. r1 = Inl e \<and> \<not> is_Exception e \<and> top_level (Inl e, w1) = (r, w')))"
proof -
  obtain r1 w1 where tb: "try_block p w = (r1, w1)" by (cases "try_block p w")
  show ?thesis
  proof (cases r1)
    case (Inr u)
    with tb have "try_block p w = (Inr (), w1)" by simp
    from main_returns [OF this, of prog] assms tb Inr show ?thesis by auto
  next
    case (Inl e)
    show ?thesis
    proof (cases "is_Exception e")
      case True
      from main_caught [OF tb [unfolded Inl] True, of prog] assms tb Inl True
      show ?thesis by auto
    next
      case False
      from main_uncaught [OF tb [unfolded Inl] False, of prog] assms tb Inl False
      show ?thesis by auto
    qed
  qed
qed

lemma top_level_uncaught:
  assumes "\<not> is_Exception e" and "top_level (Inl e, w1) = (r, w')"
  shows "fds w' = fds w1 \<and> heap w' = heap w1 \<and> sys_path w' = sys_path w1
       \<and> (case e of
             SystemExit ExitNone \<Rightarrow> r = Exited 0 \<and> stderr w' = stderr w1
           | SystemExit (ExitInt n) \<Rightarrow> r = Exited (exit_status (windows w1) n) \<and> stderr w' = stderr w1
           | SystemExit (ExitObj s) \<Rightarrow> r = Exited 1 \<and> stderr w' = stderr w1 @ s @ [CHR 0x0A]
           | _ \<Rightarrow> r = Crashed e \<and> stderr w' = stderr w1)"
  using assms by (cases e) (auto simp: top_level_def split: exit_arg.splits)

lemma try_block_cases:
  assumes "try_block p w = (r1, w1)"
  shows "(r1 = Inr () \<and> stderr w1 = stderr w
          \<and> (\<exists>attrs h a fd old j k. load_module w p = Loaded attrs h \<and> attrs ''config'' = Some a
                \<and> to_json (heap w1 a) = Inr j \<and> fds w fd = Some old
                \<and> (if windows w then fd = 1 \<and> k = length (render j @ [CHR 0x0A])
                    else channel_fd w = Inr fd
                         \<and> k = write_limit w fd (length (render j @ [CHR 0x0A])))
                \<and> fds w1 = (fds w)(fd \<mapsto> old @ take k (render j @ [CHR 0x0A]))))
       \<or> (\<exists>e. r1 = Inl e \<and> is_Exception e \<and> stderr w1 = stderr w
             \<and> (fds w1 = fds w
                \<or> (windows w
                   \<and> (\<exists>attrs h a old k m j. load_module w p = Loaded attrs h
                          \<and> attrs ''config'' = Some a \<and> to_json (heap w1 a) = Inr j
                          \<and> fds w 1 = Some old \<and> stdout_fault w = Some (k, m)
                          \<and> fds w1 = (fds w)(1 \<mapsto> old @ take k (render j @ [CHR 0x0A]))))))
       \<or> (\<exists>e. r1 = Inl e \<and> \<not> is_Exception e \<and> load_module w p = ExecRaised e
             \<and> w1 = insert_module_dir (module_dir w p) w)"
proof (cases "load_module w p")
  case SpecNone
  from try_block_SpecNone [OF this] assms show ?thesis by auto
next
  case (ExecRaised e)
  from try_block_ExecRaised [OF this] assms ExecRaised show ?thesis
    by (cases "is_Exception e") auto
next
  case (Loaded attrs h)
  show ?thesis
  proof (cases "attrs ''config''")
    case None
    from try_block_no_config [OF Loaded None] assms show ?thesis by auto
  next
    case (Some a)
    define w3 where "w3 = strip_middleware a (insert_module_dir (module_dir w p) w\<lparr>heap := h\<rparr>)"
    from assms try_block_loaded [OF Loaded Some]
    have sm: "send_message (heap w3 a) w3 = (r1, w1)" by (simp add: w3_def)
    have w3f: "fds w3 = fds w" "windows w3 = windows w" "channel_fd w3 = channel_fd w"
      "stderr w3 = stderr w" "write_limit w3 = write_limit w" "stdout_fault w3 = stdout_fault w"
      by (simp_all add: w3_def)
    from send_message_frame [OF sm] have fr: "stderr w1 = stderr w" "heap w1 = heap w3"
      using w3f by simp_all
    from send_message_cases [OF sm] show ?thesis
    proof
      assume "r1 = Inr ()
          \<and> (\<exists>fd old j k. to_json (heap w3 a) = Inr j \<and> fds w3 fd = Some old
                \<and> (if windows w3 then fd = 1 \<and> k = length (render j @ [CHR 0x0A])
                    else channel_fd w3 = Inr fd
                         \<and> k = write_limit w3 fd (length (render j @ [CHR 0x0A])))
                \<and> w1 = w3\<lparr>fds := (fds w3)(fd \<mapsto> old @ take k (render j @ [CHR 0x0A]))\<rparr>)"
      then obtain fd old j k where r1: "r1 = Inr ()" and j: "to_json (heap w3 a) = Inr j"
        and old: "fds w3 fd = Some old"
        and ch: "if windows w3 then fd = 1 \<and> k = length (render j @ [CHR 0x0A])
                 else channel_fd w3 = Inr fd
                      \<and> k = write_limit w3 fd (length (render j @ [CHR 0x0A]))"
        and w1: "w1 = w3\<lparr>fds := (fds w3)(fd \<mapsto> old @ take k (render j @ [CHR 0x0A]))\<rparr>"
        by blast
      have "load_module w p = Loaded attrs h \<and> attrs ''config'' = Some a
                \<and> to_json (heap w1 a) = Inr j \<and> fds w fd = Some old
                \<and> (if windows w then fd = 1 \<and> k = length (render j @ [CHR 0x0A])
                    else channel_fd w = Inr fd
                         \<and> k = write_limit w fd (length (render j @ [CHR 0x0A])))
                \<and> fds w1 = (fds w)(fd \<mapsto> old @ take k (render j @ [CHR 0x0A]))"
        using Loaded Some j old ch w1 w3f fr by (auto split: if_splits)
      then have "\<exists>attrs h a fd old j k. load_module w p = Loaded attrs h \<and> attrs ''config'' = Some a
                \<and> to_json (heap w1 a) = Inr j \<and> fds w fd = Some old
                \<and> (if windows w then fd = 1 \<and> k = length (render j @ [CHR 0x0A])
                    else channel_fd w = Inr fd
                         \<and> k = write_limit w fd (length (render j @ [CHR 0x0A])))
                \<and> fds w1 = (fds w)(fd \<mapsto> old @ take k (render j @ [CHR 0x0A]))"
        by blast
      with r1 fr show ?thesis by blast
    next
      assume "\<exists>e. r1 = Inl e \<and> is_Exception e
             \<and> (w1 = w3
                \<or> (windows w3
                   \<and> (\<exists>old k m j. to_json (heap w3 a) = Inr j \<and> fds w3 1 = Some old
                          \<and> stdout_fault w3 = Some (k, m)
                          \<and> w1 = w3\<lparr>fds := (fds w3)(1 \<mapsto> old @ take k (render j @ [CHR 0x0A]))\<rparr>)))"
      then obtain e where e: "r1 = Inl e" "is_Exception e"
        and d: "w1 = w3
                \<or> (windows w3
                   \<and> (\<exists>old k m j. to_json (heap w3 a) = Inr j \<and> fds w3 1 = Some old
                          \<and> stdout_fault w3 = Some (k, m)
                          \<and> w1 = w3\<lparr>fds := (fds w3)(1 \<mapsto> old @ take k (render j @ [CHR 0x0A]))\<rparr>))"
        by blast
      from d have "fds w1 = fds w
                \<or> (windows w
                   \<and> (\<exists>attrs h a old k m j. load_module w p = Loaded attrs h
                          \<and> attrs ''config'' = Some a \<and> to_json (heap w1 a) = Inr j
                          \<and> fds w 1 = Some old \<and> stdout_fault w = Some (k, m)
                          \<and> fds w1 = (fds w)(1 \<mapsto> old @ take k (render j @ [CHR 0x0A]))))"
      proof
        assume "w1 = w3"
        then show ?thesis using w3f by simp
      next
        assume "windows w3
                   \<and> (\<exists>old k m j. to_json (heap w3 a) = Inr j \<and> fds w3 1 = Some old
                          \<and> stdout_fault w3 = Some (k, m)
                          \<and> w1 = w3\<lparr>fds := (fds w3)(1 \<mapsto> old @ take k (render j @ [CHR 0x0A]))\<rparr>)"
        then obtain old k m j where win: "windows w3" and j: "to_json (heap w3 a) = Inr j"
          and old: "fds w3 1 = Some old" and sf: "stdout_fault w3 = Some (k, m)"
          and w1: "w1 = w3\<lparr>fds := (fds w3)(1 \<mapsto> old @ take k (render j @ [CHR 0x0A]))\<rparr>"
          by blast
        have "load_module w p = Loaded attrs h
                          \<and> attrs ''config'' = Some a \<and> to_json (heap w1 a) = Inr j
                          \<and> fds w 1 = Some old \<and> stdout_fault w = Some (k, m)
                          \<and> fds w1 = (fds w)(1 \<mapsto> old @ take k (render j @ [CHR 0x0A]))"
          using Loaded Some j old sf w1 w3f fr by simp
        then have "\<exists>attrs h a old k m j. load_module w p = Loaded attrs h
                          \<and> attrs ''config'' = Some a \<and> to_json (heap w1 a) = Inr j
                          \<and> fds w 1 = Some old \<and> stdout_fault w = Some (k, m)
                          \<and> fds w1 = (fds w)(1 \<mapsto> old @ take k (render j @ [CHR 0x0A]))"
          by blast
        with win w3f show ?thesis by simp
      qed
      with e fr show ?thesis by blast
    qed
  qed
qed

text \<open>The ways a run with a module path can end.\<close>

lemma main_outcome:
  assumes "main [prog, p] w = (r, w')"
  shows "(r = Exited 0 \<and> stderr w' = stderr w
          \<and> (\<exists>attrs h a fd old j k. load_module w p = Loaded attrs h \<and> attrs ''config'' = Some a
                \<and> to_json (heap w' a) = Inr j \<and> fds w fd = Some old
                \<and> (if windows w then fd = 1 \<and> k = length (render j @ [CHR 0x0A])
                    else channel_fd w = Inr fd
                         \<and> k = write_limit w fd (length (render j @ [CHR 0x0A])))
                \<and> fds w' = (fds w)(fd \<mapsto> old @ take k (render j @ [CHR 0x0A]))))
       \<or> (r = Exited 1
          \<and> (\<exists>e. is_Exception e
                \<and> stderr w' = stderr w @ ''Error running Python module: '' @ str_exc e @ [CHR 0x0A])
          \<and> (fds w' = fds w
             \<or> (windows w
                \<and> (\<exists>attrs h a old k m j. load_module w p = Loaded attrs h
                       \<and> attrs ''config'' = Some a \<and> to_json (heap w' a) = Inr j
                       \<and> fds w 1 = Some old \<and> stdout_fault w = Some (k, m)
                       \<and> fds w' = (fds w)(1 \<mapsto> old @ take k (render j @ [CHR 0x0A]))))))
       \<or> (\<exists>e. load_module w p = ExecRaised e \<and> \<not> is_Exception e
             \<and> top_level (Inl e, insert_module_dir (module_dir w p) w) = (r, w'))"
proof -
  from main_try_block [OF assms] obtain r1 w1 where
    tb: "try_block p w = (r1, w1)"
    and c: "(r1 = Inr () \<and> r = Exited 0 \<and> w' = w1)
              \<or> (\<exists>e. r1 = Inl e \<and> is_Exception e \<and> r = Exited 1 \<and> w' = print_error e w1)
              \<or> (\<exists>e. r1 = Inl e \<and> \<not> is_Exception e \<and> top_level (Inl e, w1) = (r, w'))"
    by blast
  note t = try_block_cases [OF tb]
  from c show ?thesis
  proof (elim disjE)
    assume a: "r1 = Inr () \<and> r = Exited 0 \<and> w' = w1"
    with t show ?thesis by auto
  next
    assume "\<exists>e. r1 = Inl e \<and> is_Exception e \<and> r = Exited 1 \<and> w' = print_error e w1"
    then obtain e where e: "r1 = Inl e" "is_Exception e" "r = Exited 1" "w' = print_error e w1"
      by blast
    from t e have s: "stderr w1 = stderr w"
      and f: "fds w1 = fds w
                \<or> (windows w
                   \<and> (\<exists>attrs h a old k m j. load_module w p = Loaded attrs h
                          \<and> attrs ''config'' = Some a \<and> to_json (heap w1 a) = Inr j
                          \<and> fds w 1 = Some old \<and> stdout_fault w = Some (k, m)
                          \<and> fds w1 = (fds w)(1 \<mapsto> old @ take k (render j @ [CHR 0x0A]))))"
      by auto
    have 1: "\<exists>e. is_Exception e
                \<and> stderr w' = stderr w @ ''Error running Python module: '' @ str_exc e @ [CHR 0x0A]"
      using e s by auto
    have 2: "fds w' = fds w
             \<or> (windows w
                \<and> (\<exists>attrs h a old k m j. load_module w p = Loaded attrs h
                       \<and> attrs ''config'' = Some a \<and> to_json (heap w' a) = Inr j
                       \<and> fds w 1 = Some old \<and> stdout_fault w = Some (k, m)
                       \<and> fds w' = (fds w)(1 \<mapsto> old @ take k (render j @ [CHR 0x0A]))))"
      using f e(4) by simp
    from e(3) 1 2 show ?thesis by blast
  next
    assume "\<exists>e. r1 = Inl e \<and> \<not> is_Exception e \<and> top_level (Inl e, w1) = (r, w')"
    with t show ?thesis by auto
  qed
qed

lemma try_block_heap:
  assumes "try_block p w = (r1, w1)" and "load_module w p = Loaded attrs h"
    and "attrs ''config'' = Some a"
  shows "heap w1 = heap (strip_middleware a (insert_module_dir (module_dir w p) w\<lparr>heap := h\<rparr>))"
proof -
  from assms(1) try_block_loaded [OF assms(2,3)]
  have "send_message
          (heap (strip_middleware a (insert_module_dir (module_dir w p) w\<lparr>heap := h\<rparr>)) a)
          (strip_middleware a (insert_module_dir (module_dir w p) w\<lparr>heap := h\<rparr>)) = (r1, w1)"
    by simp
  from send_message_frame [OF this] show ?thesis by simp
qed

lemma try_block_raises_Exception:
  assumes "try_block p w = (Inl e, w1)" and "load_module w p = Loaded attrs h"
  shows "is_Exception e"
  using try_block_cases [OF assms(1)] assms(2) by auto

lemma main_loaded_heap:
  assumes "load_module w p = Loaded attrs h" and "attrs ''config'' = Some a"
    and "main [prog, p] w = (r, w')"
  shows "heap w' = heap (strip_middleware a (insert_module_dir (module_dir w p) w\<lparr>heap := h\<rparr>))"
proof -
  from main_try_block [OF assms(3)] obtain r1 w1 where
    tb: "try_block p w = (r1, w1)"
    and c: "(r1 = Inr () \<and> r = Exited 0 \<and> w' = w1)
              \<or> (\<exists>e. r1 = Inl e \<and> is_Exception e \<and> r = Exited 1 \<and> w' = print_error e w1)
              \<or> (\<exists>e. r1 = Inl e \<and> \<not> is_Exception e \<and> top_level (Inl e, w1) = (r, w'))"
    by blast
  note h = try_block_heap [OF tb assms(1,2)]
  from c show ?thesis
  proof (elim disjE)
    assume "r1 = Inr () \<and> r = Exited 0 \<and> w' = w1"
    with h show ?thesis by simp
  next
    assume "\<exists>e. r1 = Inl e \<and> is_Exception e \<and> r = Exited 1 \<and> w' = print_error e w1"
    with h show ?thesis by auto
  next
    assume "\<exists>e. r1 = Inl e \<and> \<not> is_Exception e \<and> top_level (Inl e, w1) = (r, w')"
    then obtain e where e: "r1 = Inl e" "\<not> is_Exception e" by blast
    from try_block_raises_Exception [OF tb [unfolded e(1)] assms(1)] e(2) show ?thesis by simp
  qed
qed

lemma try_block_sys_path:
  assumes "try_block p w = (r, w')"
  shows "sys_path w' = sys_path (insert_module_dir (module_dir w p) w)"
proof (cases "load_module w p")
  case SpecNone
  from try_block_SpecNone [OF this] assms show ?thesis by simp
next
  case (ExecRaised e)
  from try_block_ExecRaised [OF this] assms show ?thesis by simp
next
  case (Loaded attrs h)
  show ?thesis
  proof (cases "attrs ''config''")
    case None
    from try_block_no_config [OF Loaded None] assms show ?thesis by auto
  next
    case (Some a)
    from assms try_block_loaded [OF Loaded Some]
    have "send_message
          (heap (strip_middleware a (insert_module_dir (module_dir w p) w\<lparr>heap := h\<rparr>)) a)
          (strip_middleware a (insert_module_dir (module_dir w p) w\<lparr>heap := h\<rparr>)) = (r, w')"
      by simp
    from send_message_frame [OF this] show ?thesis by simp
  qed
qed

lemma main_sys_path:
  assumes "main [prog, p] w = (r, w')"
  shows "sys_path w' = sys_path (insert_module_dir (module_dir w p) w)"
proof -
  from main_try_block [OF assms] obtain r1 w1 where
    tb: "try_block p w = (r1, w1)"
    and c: "(r1 = Inr () \<and> r = Exited 0 \<and> w' = w1)
              \<or> (\<exists>e. r1 = Inl e \<and> is_Exception e \<and> r = Exited 1 \<and> w' = print_error e w1)
              \<or> (\<exists>e. r1 = Inl e \<and> \<not> is_Exception e \<and> top_level (Inl e, w1) = (r, w'))"
    by blast
  note s = try_block_sys_path [OF tb]
  from c show ?thesis
  proof (elim disjE)
    assume "r1 = Inr () \<and> r = Exited 0 \<and> w' = w1"
    with s show ?thesis by simp
  next
    assume "\<exists>e. r1 = Inl e \<and> is_Exception e \<and> r = Exited 1 \<and> w' = print_error e w1"
    with s show ?thesis by auto
  next
    assume "\<exists>e. r1 = Inl e \<and> \<not> is_Exception e \<and> top_level (Inl e, w1) = (r, w')"
    then obtain e where "\<not> is_Exception e" and "top_level (Inl e, w1) = (r, w')" by blast
    from top_level_uncaught [OF this] s show ?thesis by simp
  qed
qed








lemma channel_fd_unset:
  assumes "environ_fd w = None \<or> (\<exists>v. environ_fd w = Some v \<and> py_int v = None)"
  shows "\<exists>e. channel_fd w = Inl e
           \<and> (e = KeyError ''NODE_CHANNEL_FD''
              \<or> (\<exists>v. environ_fd w = Some v
                     \<and> e = ValueError (''invalid literal for int() with base 10: '' @ py_repr v)))"
  using assms by (auto simp: channel_fd_def)

lemma banner_no_newline:
  "filter (\<lambda>c. c = CHR 0x0A) ''Error running Python module: '' = []"
  by simp

lemma send_message_eval:
  assumes "json_dumps v = Inr js"
  shows "send_message v w =
     (if windows w
      then (case fds w 1 of
              None \<Rightarrow> (Inl (ValueError ''write to closed file''), w)
            | Some old \<Rightarrow>
                (case stdout_fault w of
                   None \<Rightarrow> (Inr (), w\<lparr>fds := (fds w)(1 \<mapsto> old @ js @ [CHR 0x0A])\<rparr>)
                 | Some (k, m) \<Rightarrow>
                     (Inl (OSError m), w\<lparr>fds := (fds w)(1 \<mapsto> old @ take k (js @ [CHR 0x0A]))\<rparr>)))
      else (case channel_fd w of
              Inl e \<Rightarrow> (Inl e, w)
            | Inr fd \<Rightarrow>
                if fd < - 2147483648 \<or> 2147483647 < fd
                then (Inl (OverflowError ''Python int too large to convert to C int''), w)
                else (case fds w fd of
                        None \<Rightarrow> (Inl (OSError ''[Errno 9] Bad file descriptor''), w)
                      | Some old \<Rightarrow>
                          (Inr (), w\<lparr>fds := (fds w)(fd \<mapsto> old
                              @ take (write_limit w fd (length (js @ [CHR 0x0A]))) (js @ [CHR 0x0A]))\<rparr>))))"
proof -
  from json_dumps_Inr [OF assms] obtain j where j: "to_json v = Inr j" and js: "js = render j"
    by blast
  have b: "utf8_encode (js @ [CHR 0x0A]) = js @ [CHR 0x0A]" unfolding js by (rule render_bytes)
  show ?thesis
    using assms b
    by (simp add: send_message_def stdout_write_def os_write_def Let_def
             split: option.splits sum.splits prod.splits)
qed

section \<open>The claims\<close>

text \<open>
  C7. Invoked without a module path, the process exits with status 1 and writes
  nothing: no descriptor and no error text changes, the state is the one it started in.
\<close>

theorem no_argument_exits_1_silently:
  assumes "length argv < 2"
  shows "main argv w = (Exited 1, w)"
  using assms by (simp add: main_def top_level_def)

theorem no_argument_exits_1_silently_witness:
  "length [''get_config.py''] < 2
   \<and> main [''get_config.py''] (sample_world False None SpecNone)
       = (Exited 1, sample_world False None SpecNone)"
  using no_argument_exits_1_silently [of "[''get_config.py'']" "sample_world False None SpecNone"]
  by simp

text \<open>
  C8. The run changes \<^verbatim>\<open>sys.path\<close> only by putting the directory of the worker
  module in front: after the run the directory is on the path; when it was there
  already the path is the one before, and when it was not the path is the old one with
  the directory as its new first entry.
\<close>

theorem sys_path_insertion:
  assumes "main [prog, p] w = (r, w')"
  shows "module_dir w p \<in> set (sys_path w')
       \<and> (module_dir w p \<in> set (sys_path w) \<longrightarrow> sys_path w' = sys_path w)
       \<and> (module_dir w p \<notin> set (sys_path w) \<longrightarrow> sys_path w' = module_dir w p # sys_path w)"
proof -
  from main_sys_path [OF assms] show ?thesis
    by (simp add: insert_module_dir_def)
qed

theorem sys_path_insertion_witness:
  "sys_path (sample_world False (Some ''3'') (module_of hello_config)) = [''/usr/lib/python3'']
   \<and> sys_path (snd (main [''get_config.py'', ''/app/server/queues/hello.py'']
                      (sample_world False (Some ''3'') (module_of hello_config))))
       = [''/app/server/queues'', ''/usr/lib/python3'']"
  using sys_path_insertion
    [of "''get_config.py''" "''/app/server/queues/hello.py''"
        "sample_world False (Some ''3'') (module_of hello_config)", OF prod.collapse [symmetric]]
  by (simp add: sample_world_def)

text \<open>
  C4. A module that loads and has no \<^verbatim>\<open>config\<close> attribute: the process exits with
  status 1, the error text gains the line
  \<^verbatim>\<open>Error running Python module: No 'config' found in module <path>\<close>, and no
  descriptor is written.
\<close>

theorem missing_config_diagnostic:
  assumes "load_module w p = Loaded attrs h" and "attrs ''config'' = None"
  shows "\<exists>w'. main [prog, p] w = (Exited 1, w')
           \<and> stderr w' = stderr w @ ''Error running Python module: No 'config' found in module ''
                            @ p @ [CHR 0x0A]
           \<and> fds w' = fds w"
  using main_caught [OF try_block_no_config [OF assms], of prog] by simp

theorem missing_config_diagnostic_witness:
  "load_module (sample_world False (Some ''3'') (Loaded (\<lambda>name. None) (\<lambda>a. PNone))) ''/app/server/queues/empty.py''
     = Loaded (\<lambda>name. None) (\<lambda>a. PNone)
   \<and> (\<exists>w'. main [''get_config.py'', ''/app/server/queues/empty.py'']
                (sample_world False (Some ''3'') (Loaded (\<lambda>name. None) (\<lambda>a. PNone))) = (Exited 1, w')
           \<and> stderr w' = ''Error running Python module: No 'config' found in module /app/server/queues/empty.py''
                            @ [CHR 0x0A]
           \<and> fds w' = fds (sample_world False (Some ''3'') (Loaded (\<lambda>name. None) (\<lambda>a. PNone))))"
proof -
  have l: "load_module (sample_world False (Some ''3'') (Loaded (\<lambda>name. None) (\<lambda>a. PNone))) ''/app/server/queues/empty.py''
     = Loaded (\<lambda>name. None) (\<lambda>a. PNone)"
    by (simp add: sample_world_def)
  have s: "stderr (sample_world False (Some ''3'') (Loaded (\<lambda>name. None) (\<lambda>a. PNone))) = []"
    by (simp add: sample_world_def)
  from missing_config_diagnostic [OF l refl, of "''get_config.py''"] l s
  show ?thesis by simp
qed

text \<open>
  C2, as the code has it. The object bound to the module's \<^verbatim>\<open>config\<close> is updated in
  place: after the run it is the object the module body left, less its
  \<^verbatim>\<open>middleware\<close> item when it is a dict; an object that is no dict, and every other
  object of the heap, is as the module body left it.
\<close>

theorem config_object_after_relay:
  assumes "load_module w p = Loaded attrs h" and "attrs ''config'' = Some a"
    and "main [prog, p] w = (r, w')"
  shows "heap w' a =
           (case h a of
              PDict kvs \<Rightarrow> PDict (filter (\<lambda>kv. fst kv \<noteq> KStr ''middleware'') kvs)
            | v \<Rightarrow> v)
       \<and> (\<forall>b. b \<noteq> a \<longrightarrow> heap w' b = h b)"
  using main_loaded_heap [OF assms]
  by (simp add: heap_strip_middleware dict_del_def split: pyval.splits)

theorem config_object_after_relay_witness:
  "load_module (sample_world False (Some ''3'')
       (module_of (PDict [(KStr ''queue'', PStr ''x''), (KStr ''middleware'', PObj ''function'')])))
     ''/app/server/queues/x.py''
     = module_of (PDict [(KStr ''queue'', PStr ''x''), (KStr ''middleware'', PObj ''function'')])
   \<and> heap (snd (main [''get_config.py'', ''/app/server/queues/x.py'']
       (sample_world False (Some ''3'')
         (module_of (PDict [(KStr ''queue'', PStr ''x''), (KStr ''middleware'', PObj ''function'')]))))) 0
     = PDict [(KStr ''queue'', PStr ''x'')]
   \<and> heap (snd (main [''get_config.py'', ''/app/server/queues/x.py'']
       (sample_world False (Some ''3'')
         (module_of (PDict [(KStr ''queue'', PStr ''x''), (KStr ''middleware'', PObj ''function'')]))))) 1
     = PObj ''function''"
proof -
  have l: "load_module (sample_world False (Some ''3'')
       (module_of (PDict [(KStr ''queue'', PStr ''x''), (KStr ''middleware'', PObj ''function'')])))
     ''/app/server/queues/x.py''
     = Loaded (\<lambda>name. if name = ''config'' then Some 0 else if name = ''run'' then Some 1 else None)
            (\<lambda>a. if a = 0 then PDict [(KStr ''queue'', PStr ''x''), (KStr ''middleware'', PObj ''function'')]
                  else if a = 1 then PObj ''function'' else PNone)"
    by (simp add: sample_world_def module_of_def)
  from config_object_after_relay [OF l _ prod.collapse [symmetric], of 0 "''get_config.py''"] l
  show ?thesis by (simp add: module_of_def)
qed

text \<open>
  C2, as stated, fails: a module whose \<^verbatim>\<open>config\<close> is
  \<^verbatim>\<open>{"queue": "x", "middleware": <function>}\<close> holds \<^verbatim>\<open>{"queue": "x"}\<close> after
  the relay.
\<close>

theorem config_mutated_counterexample:
  "heap (snd (main [''get_config.py'', ''/app/server/queues/x.py'']
       (sample_world False (Some ''3'')
         (module_of (PDict [(KStr ''queue'', PStr ''x''), (KStr ''middleware'', PObj ''function'')]))))) 0
     = PDict [(KStr ''queue'', PStr ''x'')]
   \<and> heap (snd (main [''get_config.py'', ''/app/server/queues/x.py'']
       (sample_world False (Some ''3'')
         (module_of (PDict [(KStr ''queue'', PStr ''x''), (KStr ''middleware'', PObj ''function'')]))))) 0
     \<noteq> PDict [(KStr ''queue'', PStr ''x''), (KStr ''middleware'', PObj ''function'')]"
  by code_simp

text \<open>
  C3. Not on Windows, with \<^verbatim>\<open>NODE_CHANNEL_FD\<close> unset or set to a string that
  \<^verbatim>\<open>int()\<close> rejects, a run on a module whose body raises nothing but
  \<^verbatim>\<open>Exception\<close>s ends with status 1, writes to no descriptor, standard output
  included, and prints one diagnostic. When the module loads and its \<^verbatim>\<open>config\<close>
  serialises, so that the run gets as far as the channel, the diagnostic is the text of
  the error of \<^verbatim>\<open>int(os.environ["NODE_CHANNEL_FD"])\<close>: the \<^verbatim>\<open>KeyError\<close> of the
  variable, or the \<^verbatim>\<open>ValueError\<close> of its value.
\<close>

theorem bad_channel_fd_fails:
  assumes "\<not> windows w"
    and "environ_fd w = None \<or> (\<exists>v. environ_fd w = Some v \<and> py_int v = None)"
    and "\<forall>e. load_module w p = ExecRaised e \<longrightarrow> is_Exception e"
    and "main [prog, p] w = (r, w')"
  shows "r = Exited 1 \<and> fds w' = fds w
       \<and> (\<exists>e. is_Exception e
             \<and> stderr w' = stderr w @ ''Error running Python module: '' @ str_exc e @ [CHR 0x0A])
       \<and> (\<forall>attrs h a js. load_module w p = Loaded attrs h \<and> attrs ''config'' = Some a
               \<and> json_dumps (heap w' a) = Inr js \<longrightarrow>
             (\<exists>e. channel_fd w = Inl e
                \<and> (e = KeyError ''NODE_CHANNEL_FD''
                   \<or> (\<exists>v. environ_fd w = Some v
                          \<and> e = ValueError (''invalid literal for int() with base 10: '' @ py_repr v)))
                \<and> stderr w' = stderr w @ ''Error running Python module: '' @ str_exc e @ [CHR 0x0A]))"
proof -
  from channel_fd_unset [OF assms(2)] obtain ce where
    ce: "channel_fd w = Inl ce"
    and ce_form: "ce = KeyError ''NODE_CHANNEL_FD''
              \<or> (\<exists>v. environ_fd w = Some v
                     \<and> ce = ValueError (''invalid literal for int() with base 10: '' @ py_repr v))"
    by blast
  have no_fd: "\<And>fd k n. \<not> (if windows w then fd = 1 \<and> k = n
                             else channel_fd w = Inr fd \<and> k = write_limit w fd n)"
    using assms(1) ce by simp
  from main_outcome [OF assms(4)]
  have fail: "r = Exited 1 \<and> fds w' = fds w
          \<and> (\<exists>e. is_Exception e
                \<and> stderr w' = stderr w @ ''Error running Python module: '' @ str_exc e @ [CHR 0x0A])"
  proof (elim disjE)
    assume "r = Exited 0 \<and> stderr w' = stderr w
          \<and> (\<exists>attrs h a fd old j k. load_module w p = Loaded attrs h \<and> attrs ''config'' = Some a
                \<and> to_json (heap w' a) = Inr j \<and> fds w fd = Some old
                \<and> (if windows w then fd = 1 \<and> k = length (render j @ [CHR 0x0A])
                    else channel_fd w = Inr fd
                         \<and> k = write_limit w fd (length (render j @ [CHR 0x0A])))
                \<and> fds w' = (fds w)(fd \<mapsto> old @ take k (render j @ [CHR 0x0A])))"
    with no_fd show ?thesis by blast
  next
    assume "r = Exited 1
          \<and> (\<exists>e. is_Exception e
                \<and> stderr w' = stderr w @ ''Error running Python module: '' @ str_exc e @ [CHR 0x0A])
          \<and> (fds w' = fds w
             \<or> (windows w
                \<and> (\<exists>attrs h a old k m j. load_module w p = Loaded attrs h
                       \<and> attrs ''config'' = Some a \<and> to_json (heap w' a) = Inr j
                       \<and> fds w 1 = Some old \<and> stdout_fault w = Some (k, m)
                       \<and> fds w' = (fds w)(1 \<mapsto> old @ take k (render j @ [CHR 0x0A])))))"
    with assms(1) show ?thesis by blast
  next
    assume "\<exists>e. load_module w p = ExecRaised e \<and> \<not> is_Exception e
             \<and> top_level (Inl e, insert_module_dir (module_dir w p) w) = (r, w')"
    with assms(3) show ?thesis by blast
  qed
  have chan: "\<forall>attrs h a js. load_module w p = Loaded attrs h \<and> attrs ''config'' = Some a
               \<and> json_dumps (heap w' a) = Inr js \<longrightarrow>
             (\<exists>e. channel_fd w = Inl e
                \<and> (e = KeyError ''NODE_CHANNEL_FD''
                   \<or> (\<exists>v. environ_fd w = Some v
                          \<and> e = ValueError (''invalid literal for int() with base 10: '' @ py_repr v)))
                \<and> stderr w' = stderr w @ ''Error running Python module: '' @ str_exc e @ [CHR 0x0A])"
  proof (intro allI impI, elim conjE)
    fix attrs h a js
    assume l: "load_module w p = Loaded attrs h" and c: "attrs ''config'' = Some a"
      and js: "json_dumps (heap w' a) = Inr js"
    define w3 where "w3 = strip_middleware a (insert_module_dir (module_dir w p) w\<lparr>heap := h\<rparr>)"
    have f3: "windows w3 = windows w" "channel_fd w3 = channel_fd w" "stderr w3 = stderr w"
      by (simp_all add: w3_def)
    from main_loaded_heap [OF l c assms(4)] have hp: "heap w' = heap w3" by (simp add: w3_def)
    from js hp have js3: "json_dumps (heap w3 a) = Inr js" by simp
    have sm: "send_message (heap w3 a) w3 = (Inl ce, w3)"
      using send_message_no_channel [of w3 ce "heap w3 a" js] assms(1) ce f3 js3 by simp
    from try_block_loaded [OF l c] sm have tb: "try_block p w = (Inl ce, w3)"
      by (simp add: w3_def)
    from main_caught [OF tb channel_fd_error [OF ce], of prog] assms(4)
    have w': "w' = print_error ce w3" by simp
    with f3 have "stderr w' = stderr w @ ''Error running Python module: '' @ str_exc ce @ [CHR 0x0A]"
      by simp
    with ce ce_form
    show "\<exists>e. channel_fd w = Inl e
                \<and> (e = KeyError ''NODE_CHANNEL_FD''
                   \<or> (\<exists>v. environ_fd w = Some v
                          \<and> e = ValueError (''invalid literal for int() with base 10: '' @ py_repr v)))
                \<and> stderr w' = stderr w @ ''Error running Python module: '' @ str_exc e @ [CHR 0x0A]"
      by (intro exI conjI)
  qed
  from fail chan show ?thesis by simp
qed

theorem bad_channel_fd_fails_witness:
  "\<not> windows (sample_world False None (module_of hello_config))
   \<and> environ_fd (sample_world False None (module_of hello_config)) = None
   \<and> fst (main sample_argv (sample_world False None (module_of hello_config))) = Exited 1
   \<and> fds (snd (main sample_argv (sample_world False None (module_of hello_config))))
       = fds (sample_world False None (module_of hello_config))
   \<and> (\<exists>e. channel_fd (sample_world False None (module_of hello_config)) = Inl e
         \<and> (e = KeyError ''NODE_CHANNEL_FD''
            \<or> (\<exists>v. environ_fd (sample_world False None (module_of hello_config)) = Some v
                   \<and> e = ValueError (''invalid literal for int() with base 10: '' @ py_repr v)))
         \<and> stderr (snd (main sample_argv (sample_world False None (module_of hello_config))))
             = stderr (sample_world False None (module_of hello_config))
               @ ''Error running Python module: '' @ str_exc e @ [CHR 0x0A])
   \<and> stderr (snd (main sample_argv (sample_world False None (module_of hello_config))))
       = ''Error running Python module: '' @ [CHR 0x27] @ ''NODE_CHANNEL_FD'' @ [CHR 0x27, CHR 0x0A]
   \<and> py_int ''abc'' = None
   \<and> stderr (snd (main sample_argv (sample_world False (Some ''abc'') (module_of hello_config))))
       = ''Error running Python module: invalid literal for int() with base 10: ''
         @ [CHR 0x27] @ ''abc'' @ [CHR 0x27, CHR 0x0A]"
proof -
  have nw: "\<not> windows (sample_world False None (module_of hello_config))"
    by (simp add: sample_world_def)
  have ev: "environ_fd (sample_world False None (module_of hello_config)) = None"
    by (simp add: sample_world_def)
  have ev': "environ_fd (sample_world False None (module_of hello_config)) = None
     \<or> (\<exists>v. environ_fd (sample_world False None (module_of hello_config)) = Some v
            \<and> py_int v = None)"
    using ev by simp
  have l: "load_module (sample_world False None (module_of hello_config)) ''/app/server/queues/hello.py''
     = Loaded (\<lambda>name. if name = ''config'' then Some 0 else if name = ''run'' then Some 1 else None)
            (\<lambda>a. if a = 0 then hello_config else if a = 1 then PObj ''function'' else PNone)"
    by (simp add: sample_world_def module_of_def)
  have ex: "\<forall>e. load_module (sample_world False None (module_of hello_config))
                  ''/app/server/queues/hello.py'' = ExecRaised e \<longrightarrow> is_Exception e"
    by (simp add: l)
  have c: "(if ''config'' = ''config'' then Some (0::nat)
            else if ''config'' = ''run'' then Some 1 else None) = Some 0"
    by simp
  have m: "main [''get_config.py'', ''/app/server/queues/hello.py'']
             (sample_world False None (module_of hello_config))
     = (fst (main sample_argv (sample_world False None (module_of hello_config))),
        snd (main sample_argv (sample_world False None (module_of hello_config))))"
    by (simp add: sample_argv_def)
  have d: "json_dumps (heap (snd (main sample_argv (sample_world False None (module_of hello_config)))) 0)
     = Inr (render (JObj [(''queue'', JStr ''hello''),
                 (''flow'', JObj [(''name'', JArr [JStr ''welcome-flow'']),
                    (''role'', JStr ''entry''), (''step'', JStr ''hello''),
                    (''emits'', JArr [JStr ''hello.done''])])]))"
    by code_simp
  note t = bad_channel_fd_fails [OF nw ev' ex m]
  note t4 = t [THEN conjunct2, THEN conjunct2, THEN conjunct2, rule_format, OF conjI [OF l conjI [OF c d]]]
  have s1: "stderr (snd (main sample_argv (sample_world False None (module_of hello_config))))
       = ''Error running Python module: '' @ [CHR 0x27] @ ''NODE_CHANNEL_FD'' @ [CHR 0x27, CHR 0x0A]"
    by code_simp
  have p: "py_int ''abc'' = None" by code_simp
  have s2: "stderr (snd (main sample_argv (sample_world False (Some ''abc'') (module_of hello_config))))
       = ''Error running Python module: invalid literal for int() with base 10: ''
         @ [CHR 0x27] @ ''abc'' @ [CHR 0x27, CHR 0x0A]"
    by code_simp
  from nw ev t [THEN conjunct1] t [THEN conjunct2, THEN conjunct1] t4 s1 p s2
  show ?thesis by (intro conjI)
qed

text \<open>
  C5. The claim fails on the code. On a descriptor that takes only 50 bytes in one
  write, a run on the sample worker ends with status 0 and the channel holds the first
  50 of the 114 bytes of the line, with no newline: \<^verbatim>\<open>os.write\<close> is called once on
  line 23 and the number of bytes it returns is dropped.
\<close>

theorem short_write_cuts_the_line:
  \<open>fst (main sample_argv (short_write_world hello_config)) = Exited 0
   \<and> stderr (snd (main sample_argv (short_write_world hello_config))) = []
   \<and> fds (snd (main sample_argv (short_write_world hello_config))) 3
       = Some ''{"queue": "hello", "flow": {"name": ["welcome-flow''
   \<and> json_dumps hello_config
       = Inr ''{"queue": "hello", "flow": {"name": ["welcome-flow"], "role": "entry", "step": "hello", "emits": ["hello.done"]}}''\<close>
  by code_simp



end
